theory Spec2Isabelle
  imports Main "HOL-Library.Word"
begin

unbundle bit_operations_syntax

section \<open>The carbonzipper front end (cmd/carbonzipper/main.go)\<close>

text \<open>
  The theory embeds the boundary layer of carbonzipper: the three HTTP handlers, the
  response encoders, the start-up sequence of \<open>main\<close>, the request-time histogram
  and \<open>sendStats\<close>. The engine (package \<open>zipper\<close>), the wire encoders
  (\<open>encoding/json\<close>, og-rek pickle, protobuf \<open>Marshal\<close>) and \<open>strconv\<close> are
  libraries: the engine is a parameter of every handler, the encoders are modelled up
  to the Go value handed to them, and \<open>strconv.Atoi\<close> is written out.

  Go's \<open>int\<close> is taken at 64 bits (amd64), \<open>int64\<close> and \<open>int32\<close> are words.
\<close>

type_synonym int64 = "64 word"
type_synonym int32 = "32 word"
type_synonym go_int = "64 word"

subsection \<open>Run-time panics\<close>

datatype panic =
    IndexOutOfRange int nat   \<comment> \<open>index, length of the slice\<close>
  | MakeSliceLenOutOfRange

subsection \<open>The request-time histogram (lines 794 to 831)\<close>

text \<open>
  \<open>t.Nanoseconds() / int64(time.Millisecond)\<close>: Go's integer division truncates
  towards zero.
\<close>

definition go_quot :: "int \<Rightarrow> int \<Rightarrow> int" where
  "go_quot a b = (if (a < 0) = (b < 0) then \<bar>a\<bar> div \<bar>b\<bar> else - (\<bar>a\<bar> div \<bar>b\<bar>))"

definition duration_ms :: "int64 \<Rightarrow> int64" where
  "duration_ms t = word_of_int (go_quot (sint t) 1000000)"

text \<open>
  The threshold \<open>50*(1<<uint(bucket))\<close> is an \<open>int64\<close> expression (the untyped
  constants take the type of \<open>ms\<close>): the shift gives 0 from 64 bits on and the product
  wraps.
\<close>

definition bucket_threshold :: "int \<Rightarrow> int64" where
  "bucket_threshold bucket = 50 * push_bit (nat bucket) (1 :: int64)"

text \<open>
  Arithmetic on Go's \<open>int\<close> wraps at 64 bits: \<open>wrap_int k\<close> is the value of type
  \<open>int\<close> that a result \<open>k\<close> is stored as.
\<close>

definition wrap_int :: "int \<Rightarrow> int" where
  "wrap_int k = signed_take_bit 63 k"

text \<open>
  The loop \<open>for bucket = 0; bucket < config.Buckets+1; bucket++\<close> with its
  \<open>bucket--; break\<close>. The result is the value of \<open>bucket\<close> after the loop. Inside
  the loop \<open>bucket\<close> is below the bound, so that \<open>bucket++\<close> does not wrap.
\<close>

function bucket_loop :: "int64 \<Rightarrow> int \<Rightarrow> int \<Rightarrow> int" where
  "bucket_loop ms buckets bucket =
     (if bucket < wrap_int (buckets + 1)
      then (if sint (bucket_threshold bucket) \<le> sint ms
            then bucket - 1
            else bucket_loop ms buckets (bucket + 1))
      else bucket)"
  by pat_completeness auto
termination
  by (relation "measure (\<lambda>(ms, buckets, bucket). nat (wrap_int (buckets + 1) - bucket))") auto

declare bucket_loop.simps [simp del]

text \<open>\<open>atomic.AddInt64(&timeBuckets[i], 1)\<close>: the index is checked, the sum wraps.\<close>

definition atomic_add_at :: "int64 list \<Rightarrow> int \<Rightarrow> panic + int64 list" where
  "atomic_add_at xs i =
     (if 0 \<le> i \<and> i < int (length xs)
      then Inr (xs[nat i := xs ! nat i + 1])
      else Inl (IndexOutOfRange i (length xs)))"

text \<open>
  \<open>bucketRequestTimes\<close>: the new \<open>timeBuckets\<close> and whether "Slow Request" was
  logged, or the panic of the slice access.
\<close>

definition bucketRequestTimes :: "int \<Rightarrow> int64 list \<Rightarrow> int64 \<Rightarrow> panic + (int64 list \<times> bool)" where
  "bucketRequestTimes buckets timeBuckets t =
     (let ms = duration_ms t;
          bucket = bucket_loop ms buckets 0
      in if bucket < buckets
         then (case atomic_add_at timeBuckets bucket of
                 Inl p \<Rightarrow> Inl p
               | Inr tb \<Rightarrow> Inr (tb, False))
         else (case atomic_add_at timeBuckets buckets of
                 Inl p \<Rightarrow> Inl p
               | Inr tb \<Rightarrow> Inr (tb, True)))"

text \<open>
  \<open>timeBuckets = make([]int64, config.Buckets+1)\<close> (line 650). \<open>make\<close> panics on
  a negative length and on one whose 8-byte elements exceed the address space of the
  allocator (\<open>2^48\<close> bytes on amd64); below that the allocation is taken to succeed.
\<close>

definition make_timeBuckets :: "int \<Rightarrow> panic + int64 list" where
  "make_timeBuckets buckets =
     (let n = wrap_int (buckets + 1)
      in if n < 0 \<or> 2 ^ 45 < n then Inl MakeSliceLenOutOfRange
         else Inr (replicate (nat n) 0))"

text \<open>
  The bounds under which \<open>main\<close> registers bucket \<open>i\<close> with Graphite (lines 742 to
  751): \<open>requests_in_<lower>ms_to_<upper>ms\<close>. Both are \<open>int\<close> expressions: the
  shift gives 0 from 64 bits on and the product wraps.
\<close>

definition bucket_lower :: "nat \<Rightarrow> int" where
  "bucket_lower i = (if i = 0 then 0 else sint (50 * push_bit (i - 1) (1 :: go_int)))"

definition bucket_upper :: "nat \<Rightarrow> int" where
  "bucket_upper i = sint (50 * push_bit i (1 :: go_int))"

subsection \<open>Start-up: \<open>main\<close> (lines 582 to 792)\<close>

text \<open>
  The fields of the global \<open>config\<close> that decide the control flow of \<open>main\<close> and
  of the handlers. \<open>zipper.CarbonSearch\<close> has the two strings \<open>Prefix\<close> and
  \<open>Backend\<close>.
\<close>

record CarbonSearch =
  Prefix :: string
  Backend :: string

record Config =
  Backends :: "string list"
  Buckets :: int
  CarbonSearch :: CarbonSearch
  GraphiteHost :: string
  GraphiteWeb09Compatibility :: bool

text \<open>
  What \<open>main\<close> gets from outside: the two flags, the outcome of reading the file, of
  \<open>yaml.Unmarshal\<close> into \<open>config\<close> (the resulting configuration, or \<open>None\<close> for
  an error), and of the library calls that can fail.
\<close>

record startup_env =
  default_logger_fails :: bool
  configFile :: string
  pidFile :: string
  readFile :: "string option"
  unmarshal :: "string \<Rightarrow> Config option"
  apply_logger_fails :: bool
  graphite_env_host :: string
  pidfile_write_fails :: bool
  serve_fails :: bool

text \<open>The calls \<open>main\<close> makes, in order; a call is recorded when it is made.\<close>

datatype step =
    ApplyDefaultLogger
  | ParseFlags
  | ReadConfigFile
  | UnmarshalConfig
  | ApplyLoggerConfig
  | SetSearchConfigured bool
  | MakeTimeBuckets
  | NewZipper
  | HandleFuncs
  | RegisterGraphite
  | WritePidfile
  | Serve

datatype exit = Fatal string | Returned

record started =
  exit :: exit
  steps :: "step list"
  searchConfigured :: bool
  timeBuckets :: "int64 list"

definition stop :: "exit \<Rightarrow> step list \<Rightarrow> bool \<Rightarrow> int64 list \<Rightarrow> started" where
  "stop e ss sc tb = \<lparr>exit = e, steps = ss, searchConfigured = sc, timeBuckets = tb\<rparr>"

text \<open>
  From \<open>NewZipper\<close> on (lines 690 to 791). The Graphite host falls back to the
  environment; \<open>host != ":"\<close> is the test of line 699.
\<close>

definition serve_phase :: "startup_env \<Rightarrow> Config \<Rightarrow> step list \<Rightarrow> bool \<Rightarrow> int64 list \<Rightarrow> started" where
  "serve_phase env config ss sc tb =
     (let host = (if GraphiteHost config = [] \<and> graphite_env_host env \<noteq> '':''
                  then graphite_env_host env else GraphiteHost config);
          s1 = ss @ [NewZipper, HandleFuncs];
          s2 = (if host \<noteq> [] then s1 @ [RegisterGraphite] else s1)
      in if pidFile env \<noteq> []
         then (if pidfile_write_fails env
               then stop (Fatal ''error during pidfile.Write():'') (s2 @ [WritePidfile]) sc tb
               else if serve_fails env
               then stop (Fatal ''error during gracehttp.Serve()'') (s2 @ [WritePidfile, Serve]) sc tb
               else stop Returned (s2 @ [WritePidfile, Serve]) sc tb)
         else (if serve_fails env
               then stop (Fatal ''error during gracehttp.Serve()'') (s2 @ [Serve]) sc tb
               else stop Returned (s2 @ [Serve]) sc tb))"

text \<open>
  \<open>main\<close>. \<open>searchConfigured\<close> starts \<open>false\<close> and \<open>timeBuckets\<close> nil. A panic
  of \<open>make\<close> is caught by the deferred \<open>recover\<close>, which calls \<open>logger.Fatal\<close>.
\<close>

definition main :: "startup_env \<Rightarrow> started" where
  "main env =
     (if default_logger_fails env
      then stop (Fatal ''Failed to initialize logger with default configuration'')
             [ApplyDefaultLogger] False []
      else if configFile env = []
      then stop (Fatal ''missing config file option'') [ApplyDefaultLogger, ParseFlags] False []
      else (case readFile env of
              None \<Rightarrow> stop (Fatal ''unable to load config file:'')
                        [ApplyDefaultLogger, ParseFlags, ReadConfigFile] False []
            | Some cfg \<Rightarrow>
               (case unmarshal env cfg of
                  None \<Rightarrow> stop (Fatal ''failed to parse config'')
                            [ApplyDefaultLogger, ParseFlags, ReadConfigFile, UnmarshalConfig] False []
                | Some config \<Rightarrow>
                   if length (Backends config) = 0
                   then stop (Fatal ''no Backends loaded -- exiting'')
                          [ApplyDefaultLogger, ParseFlags, ReadConfigFile, UnmarshalConfig] False []
                   else if apply_logger_fails env
                   then stop (Fatal ''Failed to apply config'')
                          [ApplyDefaultLogger, ParseFlags, ReadConfigFile, UnmarshalConfig,
                           ApplyLoggerConfig] False []
                   else
                     (let sc = (length (Prefix (CarbonSearch config)) > 0
                                \<and> length (Backend (CarbonSearch config)) > 0);
                          ss = [ApplyDefaultLogger, ParseFlags, ReadConfigFile, UnmarshalConfig,
                                ApplyLoggerConfig, SetSearchConfigured sc, MakeTimeBuckets]
                      in case make_timeBuckets (Buckets config) of
                           Inl p \<Rightarrow> stop (Fatal ''Recovered from unhandled panic'') ss sc []
                         | Inr tb \<Rightarrow> serve_phase env config ss sc tb))))"

subsection \<open>Engine results and process-wide counters\<close>

text \<open>
  \<open>zipper.Stats\<close>, as far as \<open>sendStats\<close> reads it, and the \<open>expvar.Int\<close> members
  of \<open>Metrics\<close>. Both are \<open>int64\<close>; \<open>expvar.Int.Add\<close> is an atomic wrapping sum.
\<close>

record Stats =
  stTimeouts :: int64
  stFindErrors :: int64
  stRenderErrors :: int64
  stInfoErrors :: int64
  stSearchRequests :: int64
  stSearchCacheHits :: int64
  stSearchCacheMisses :: int64
  stCacheMisses :: int64
  stCacheHits :: int64

record Metrics =
  Requests :: int64
  Responses :: int64
  Errors :: int64
  FindRequests :: int64
  FindErrors :: int64
  SearchRequests :: int64
  RenderRequests :: int64
  RenderErrors :: int64
  InfoRequests :: int64
  InfoErrors :: int64
  Timeouts :: int64
  CacheMisses :: int64
  CacheHits :: int64
  SearchCacheMisses :: int64
  SearchCacheHits :: int64

definition sendStats :: "Stats \<Rightarrow> Metrics \<Rightarrow> Metrics" where
  "sendStats stats M =
     M\<lparr>Timeouts := Timeouts M + stTimeouts stats,
       FindErrors := FindErrors M + stFindErrors stats,
       RenderErrors := RenderErrors M + stRenderErrors stats,
       InfoErrors := InfoErrors M + stInfoErrors stats,
       SearchRequests := SearchRequests M + stSearchRequests stats,
       SearchCacheHits := SearchCacheHits M + stSearchCacheHits stats,
       SearchCacheMisses := SearchCacheMisses M + stSearchCacheMisses stats,
       CacheMisses := CacheMisses M + stCacheMisses stats,
       CacheHits := CacheHits M + stCacheHits stats\<rparr>"

text \<open>
  The protocol messages (package \<open>carbonapi_v2_pb\<close>). \<open>'v\<close> stands for
  \<open>float64\<close>, which the front end only passes on; \<open>'info\<close> for \<open>InfoResponse\<close>.
\<close>

record GlobMatch =
  Path :: string
  IsLeaf :: bool

record 'v FetchResponse =
  Name :: string
  StartTime :: int32
  StopTime :: int32
  StepTime :: int32
  Values :: "'v list"
  IsAbsent :: "bool list"

record 'v MultiFetchResponse =
  mfrMetrics :: "'v FetchResponse list"

text \<open>
  The engine. One handler run calls it at most once, so each operation is a function
  from its arguments to the triple it returns; \<open>None\<close> is a nil error. A Go map is
  given as its pairs in the order in which \<open>range\<close> visits them.
\<close>

record ('v, 'info) Zipper =
  zFind :: "string \<Rightarrow> GlobMatch list \<times> Stats \<times> string option"
  zRender :: "string \<Rightarrow> int32 \<Rightarrow> int32 \<Rightarrow> 'v MultiFetchResponse \<times> Stats \<times> string option"
  zInfo :: "string \<Rightarrow> (string \<times> 'info) list \<times> Stats \<times> string option"

datatype call =
    CallFind string
  | CallRender string int32 int32
  | CallInfo string

subsection \<open>Requests and responses\<close>

text \<open>
  \<open>form req k\<close> is \<open>req.FormValue(k)\<close>, the empty string for an absent key;
  \<open>parse_form_fails\<close> says whether \<open>req.ParseForm()\<close> returns an error.
\<close>

record request =
  parse_form_fails :: bool
  form :: "string \<Rightarrow> string"

definition contentTypeJSON :: string where "contentTypeJSON = ''application/json''"
definition contentTypeProtobuf :: string where "contentTypeProtobuf = ''application/x-protobuf''"
definition contentTypePickle :: string where "contentTypePickle = ''application/pickle''"

definition formatTypeEmpty :: string where "formatTypeEmpty = []"
definition formatTypePickle :: string where "formatTypePickle = ''pickle''"
definition formatTypeJSON :: string where "formatTypeJSON = ''json''"
definition formatTypeProtobuf :: string where "formatTypeProtobuf = ''protobuf''"
definition formatTypeProtobuf3 :: string where "formatTypeProtobuf3 = ''protobuf3''"

text \<open>
  Values of type \<open>interface{}\<close> as the handlers build them. \<open>Nil\<close> is what
  \<open>encoding/json\<close> writes as \<open>null\<close>, \<open>PickleNone\<close> is \<open>pickle.None{}\<close>.
\<close>

record IntervalSet =
  Start :: int32
  End :: int32

datatype 'v iface =
    Nil
  | PickleNone
  | Float64 'v
  | Int32 int32
  | Str string
  | Bool bool
  | Slice "'v iface list"
  | IntervalSetPtr IntervalSet

type_synonym 'v gomap = "string \<rightharpoonup> 'v iface"

text \<open>What a handler hands to its encoder, or the text of \<open>http.Error\<close>.\<close>

datatype ('v, 'info) body =
    NoBody
  | ErrorText string
  | PBGlobResponse string "GlobMatch list"
  | JSONGlobMatches "GlobMatch list"
  | Pickled "'v gomap list"
  | PBMultiFetch "'v MultiFetchResponse"
  | JSONMaps "'v gomap list"
  | PBZipperInfo "(string \<times> 'info option) list"
  | JSONInfos "(string \<times> 'info) list"

text \<open>
  The outcome of one handler run: the counters after it, the status (200 unless
  \<open>http.Error\<close> is called; \<open>None\<close> when the handler panics), the content type it
  sets, the body, the engine calls it made, and the panic, if any.
\<close>

record ('v, 'info) handled =
  counters :: Metrics
  http_code :: "nat option"
  content_type :: "string option"
  body :: "('v, 'info) body"
  engine_calls :: "call list"
  panicked :: "panic option"

text \<open>\<open>http.Error(w, msg, code); Metrics.Errors.Add(1); return\<close>.\<close>

definition http_Error :: "Metrics \<Rightarrow> call list \<Rightarrow> string \<Rightarrow> nat \<Rightarrow> ('v, 'info) handled" where
  "http_Error M cs msg code =
     \<lparr>counters = M\<lparr>Errors := Errors M + 1\<rparr>, http_code = Some code,
      content_type = Some ''text/plain; charset=utf-8'', body = ErrorText msg,
      engine_calls = cs, panicked = None\<rparr>"

text \<open>The end of a handler: the encoder's error, or \<open>Metrics.Responses.Add(1)\<close>.\<close>

definition served :: "Metrics \<Rightarrow> call list \<Rightarrow> string option \<Rightarrow> ('v, 'info) body \<Rightarrow> bool
    \<Rightarrow> ('v, 'info) handled" where
  "served M cs ct b err =
     (if err then http_Error M cs ''error marshaling data'' 500
      else \<lparr>counters = M\<lparr>Responses := Responses M + 1\<rparr>, http_code = Some 200,
            content_type = ct, body = b, engine_calls = cs, panicked = None\<rparr>)"

definition panicking :: "Metrics \<Rightarrow> call list \<Rightarrow> string option \<Rightarrow> panic \<Rightarrow> ('v, 'info) handled" where
  "panicking M cs ct p =
     \<lparr>counters = M, http_code = None, content_type = ct, body = NoBody,
      engine_calls = cs, panicked = Some p\<rparr>"


subsection \<open>\<open>strconv.Atoi\<close> and the conversion \<open>int32(x)\<close>\<close>

text \<open>
  \<open>strconv.Atoi\<close> accepts an optional sign followed by at least one decimal digit,
  and fails on anything else and on a value outside the range of \<open>int\<close>.
\<close>

definition is_digit :: "char \<Rightarrow> bool" where
  "is_digit c = (48 \<le> (of_char c :: nat) \<and> (of_char c :: nat) \<le> 57)"

fun digits_value :: "int \<Rightarrow> string \<Rightarrow> int option" where
  "digits_value n [] = Some n"
| "digits_value n (c # cs) =
     (if is_digit c then digits_value (n * 10 + (of_char c - 48)) cs else None)"

definition Atoi :: "string \<Rightarrow> go_int option" where
  "Atoi s =
     (case s of
        [] \<Rightarrow> None
      | c # cs \<Rightarrow>
         (let ds = (if c = CHR ''-'' \<or> c = CHR ''+'' then cs else s)
          in if ds = [] then None
             else (case digits_value 0 ds of
                     None \<Rightarrow> None
                   | Some n \<Rightarrow>
                      (let v = (if c = CHR ''-'' then - n else n)
                       in if - (2 ^ 63) \<le> v \<and> v < 2 ^ 63 then Some (word_of_int v) else None))))"

text \<open>\<open>int32(x)\<close> keeps the low 32 bits.\<close>

definition to_int32 :: "64 word \<Rightarrow> int32" where
  "to_int32 x = ucast x"

subsection \<open>\<open>encodeFindResponse\<close> (lines 236 to 284)\<close>

text \<open>
  The map built for one match in the pickle branch; \<open>now\<close> is the local of line 257.
\<close>

definition find_pickle_entry :: "bool \<Rightarrow> int32 \<Rightarrow> GlobMatch \<Rightarrow> 'v gomap" where
  "find_pickle_entry compat09 now metric =
     (if compat09
      then [''metric_path'' \<mapsto> Str (Path metric), ''isLeaf'' \<mapsto> Bool (IsLeaf metric)]
      else [''is_leaf'' \<mapsto> Bool (IsLeaf metric), ''path'' \<mapsto> Str (Path metric),
            ''intervals'' \<mapsto> IntervalSetPtr \<lparr>Start = 0, End = now\<rparr>])"

text \<open>
  \<open>compat09\<close> is \<open>config.GraphiteWeb09Compatibility\<close>, \<open>unix\<close> is
  \<open>time.Now().Unix()\<close>, \<open>enc_err\<close> says whether the encoder used returns an error.
  The result is the content type set, the value encoded and whether \<open>err\<close> is non-nil.
  A format that matches no case writes nothing and returns nil.
\<close>

definition encodeFindResponse :: "bool \<Rightarrow> int64 \<Rightarrow> bool \<Rightarrow> string \<Rightarrow> string \<Rightarrow> GlobMatch list
    \<Rightarrow> string option \<times> ('v, 'info) body \<times> bool" where
  "encodeFindResponse compat09 unix enc_err format query metrics =
     (if format = formatTypeProtobuf \<or> format = formatTypeProtobuf3
      then (Some contentTypeProtobuf, PBGlobResponse query metrics, enc_err)
      else if format = formatTypeJSON
      then (Some contentTypeJSON, JSONGlobMatches metrics, enc_err)
      else if format = formatTypeEmpty \<or> format = formatTypePickle
      then (let now = to_int32 (unix + 60)
            in (Some contentTypePickle, Pickled (map (find_pickle_entry compat09 now) metrics), enc_err))
      else (None, NoBody, False))"

text \<open>Reading an encoded list of maps back, and the interval set of an entry.\<close>

definition intervals_of :: "'v gomap \<Rightarrow> IntervalSet option" where
  "intervals_of mm = (case mm ''intervals'' of Some (IntervalSetPtr s) \<Rightarrow> Some s | _ \<Rightarrow> None)"

fun encoded_maps :: "('v, 'info) body \<Rightarrow> 'v gomap list" where
  "encoded_maps (Pickled ms) = ms"
| "encoded_maps (JSONMaps ms) = ms"
| "encoded_maps _ = []"

subsection \<open>\<open>findHandler\<close> (lines 175 to 234)\<close>

definition findHandler :: "('v, 'info) Zipper \<Rightarrow> bool \<Rightarrow> int64 \<Rightarrow> bool \<Rightarrow> request \<Rightarrow> Metrics
    \<Rightarrow> ('v, 'info) handled" where
  "findHandler z compat09 unix enc_err req M0 =
     (let originalQuery = form req ''query'';
          format = form req ''format'';
          M1 = M0\<lparr>Requests := Requests M0 + 1, FindRequests := FindRequests M0 + 1\<rparr>
      in case zFind z originalQuery of
           (metrics, stats, err) \<Rightarrow>
             (let M2 = sendStats stats M1;
                  cs = [CallFind originalQuery]
              in case err of
                   Some e \<Rightarrow> http_Error M2 cs ''error fetching the data'' 500
                 | None \<Rightarrow>
                    (case encodeFindResponse compat09 unix enc_err format originalQuery metrics of
                       (ct, b, failed) \<Rightarrow> served M2 cs ct b failed)))"

subsection \<open>\<open>createRenderResponse\<close> (lines 428 to 455)\<close>

text \<open>
  The inner loop over \<open>metric.Values\<close>; \<open>i\<close> is the index, \<open>pvalues\<close> the slice built
  so far. \<open>metric.IsAbsent[i]\<close> panics when the flags are shorter than the values.
\<close>

fun pvalues_loop :: "bool list \<Rightarrow> 'v iface \<Rightarrow> nat \<Rightarrow> 'v list \<Rightarrow> 'v iface list
    \<Rightarrow> panic + 'v iface list" where
  "pvalues_loop isAbsent missing i [] pvalues = Inr pvalues"
| "pvalues_loop isAbsent missing i (v # vs) pvalues =
     (if i < length isAbsent
      then pvalues_loop isAbsent missing (i + 1) vs
             (pvalues @ [if isAbsent ! i then missing else Float64 v])
      else Inl (IndexOutOfRange (int i) (length isAbsent)))"

definition presponse :: "'v FetchResponse \<Rightarrow> 'v iface list \<Rightarrow> 'v gomap" where
  "presponse metric pvalues =
     [''start'' \<mapsto> Int32 (StartTime metric),
      ''step'' \<mapsto> Int32 (StepTime metric),
      ''end'' \<mapsto> Int32 (StopTime metric),
      ''name'' \<mapsto> Str (Name metric),
      ''values'' \<mapsto> Slice pvalues]"

fun response_loop :: "'v iface \<Rightarrow> 'v FetchResponse list \<Rightarrow> 'v gomap list \<Rightarrow> panic + 'v gomap list" where
  "response_loop missing [] response = Inr response"
| "response_loop missing (metric # rest) response =
     (case pvalues_loop (IsAbsent metric) missing 0 (Values metric) [] of
        Inl p \<Rightarrow> Inl p
      | Inr pvalues \<Rightarrow> response_loop missing rest (response @ [presponse metric pvalues]))"

definition createRenderResponse :: "'v MultiFetchResponse \<Rightarrow> 'v iface \<Rightarrow> panic + 'v gomap list" where
  "createRenderResponse metrics missing = response_loop missing (mfrMetrics metrics) []"

text \<open>Reading an encoded series back: its value sequence.\<close>

definition values_of :: "'v gomap \<Rightarrow> 'v iface list option" where
  "values_of mm = (case mm ''values'' of Some (Slice pv) \<Rightarrow> Some pv | _ \<Rightarrow> None)"

subsection \<open>\<open>renderHandler\<close> (lines 286 to 426)\<close>

text \<open>The \<open>switch format\<close> of lines 386 to 404, after a successful engine call.\<close>

definition render_switch :: "Metrics \<Rightarrow> call list \<Rightarrow> bool \<Rightarrow> string \<Rightarrow> 'v MultiFetchResponse
    \<Rightarrow> ('v, 'info) handled" where
  "render_switch M cs enc_err format metrics =
     (if format = formatTypeProtobuf \<or> format = formatTypeProtobuf3
      then served M cs (Some contentTypeProtobuf) (PBMultiFetch metrics) enc_err
      else if format = formatTypeJSON
      then (case createRenderResponse metrics Nil of
              Inl p \<Rightarrow> panicking M cs None p
            | Inr r \<Rightarrow> served M cs (Some contentTypeJSON) (JSONMaps r) enc_err)
      else if format = formatTypeEmpty \<or> format = formatTypePickle
      then (case createRenderResponse metrics PickleNone of
              Inl p \<Rightarrow> panicking M cs None p
            | Inr r \<Rightarrow> served M cs (Some contentTypePickle) (Pickled r) enc_err)
      else served M cs None NoBody False)"

definition renderHandler :: "('v, 'info) Zipper \<Rightarrow> bool \<Rightarrow> request \<Rightarrow> Metrics \<Rightarrow> ('v, 'info) handled" where
  "renderHandler z enc_err req M0 =
     (let M1 = M0\<lparr>Requests := Requests M0 + 1, RenderRequests := RenderRequests M0 + 1\<rparr>
      in if parse_form_fails req
         then http_Error M1 [] ''failed to parse arguments'' 400
         else
          (let target = form req ''target'';
               format = form req ''format''
           in case Atoi (form req ''from'') of
                None \<Rightarrow> http_Error M1 [] ''from is not a integer'' 400
              | Some fromv \<Rightarrow>
                 (case Atoi (form req ''until'') of
                    None \<Rightarrow> http_Error M1 [] ''until is not a integer'' 400
                  | Some untilv \<Rightarrow>
                     if target = []
                     then http_Error M1 [] ''empty target'' 400
                     else
                      (case zRender z target (to_int32 fromv) (to_int32 untilv) of
                         (metrics, stats, err) \<Rightarrow>
                           (let M2 = sendStats stats M1;
                                cs = [CallRender target (to_int32 fromv) (to_int32 untilv)]
                            in case err of
                                 Some e \<Rightarrow> http_Error M2 cs ''error fetching the data'' 500
                               | None \<Rightarrow> render_switch M2 cs enc_err format metrics)))))"

subsection \<open>\<open>infoHandler\<close> (lines 457 to 561)\<close>

text \<open>
  The protobuf branch takes the address of the loop variable \<open>i\<close>, so its aliasing
  matters: pointers are addresses into a store. Before Go 1.22, the language of this
  code (it still imports \<open>io/ioutil\<close>), a \<open>range\<close> loop has one variable for all its
  iterations; it lives at \<open>loop_var_i\<close>.
\<close>

type_synonym addr = nat

record ServerInfoResponse =
  Server :: string
  Info :: "addr option"

definition loop_var_i :: addr where
  "loop_var_i = 0"

text \<open>\<open>make([]pb3.ServerInfoResponse, n)\<close>: \<open>n\<close> zero values.\<close>

definition make_responses :: "nat \<Rightarrow> ServerInfoResponse list" where
  "make_responses n = replicate n \<lparr>Server = [], Info = None\<rparr>"

text \<open>
  The loop of lines 530 to 535: each iteration assigns the next pair to \<open>s, i\<close> and
  appends \<open>r\<close> with \<open>r.Info = &i\<close>.
\<close>

fun info_loop :: "(string \<times> 'info) list \<Rightarrow> (addr \<rightharpoonup> 'info) \<Rightarrow> ServerInfoResponse list
    \<Rightarrow> (addr \<rightharpoonup> 'info) \<times> ServerInfoResponse list" where
  "info_loop [] store responses = (store, responses)"
| "info_loop ((s, i) # rest) store responses =
     info_loop rest (store(loop_var_i \<mapsto> i))
       (responses @ [\<lparr>Server = s, Info = Some loop_var_i\<rparr>])"

text \<open>\<open>result.Marshal()\<close> follows each \<open>Info\<close> pointer when it runs; nil is left out.\<close>

definition marshal_responses :: "(addr \<rightharpoonup> 'info) \<Rightarrow> ServerInfoResponse list
    \<Rightarrow> (string \<times> 'info option) list" where
  "marshal_responses store rs =
     map (\<lambda>r. (Server r, case Info r of None \<Rightarrow> None | Some a \<Rightarrow> store a)) rs"

definition info_protobuf :: "(string \<times> 'info) list \<Rightarrow> (string \<times> 'info option) list" where
  "info_protobuf infos =
     (case info_loop infos Map.empty (make_responses (length infos)) of
        (store, responses) \<Rightarrow> marshal_responses store responses)"

definition infoHandler :: "('v, 'info) Zipper \<Rightarrow> bool \<Rightarrow> request \<Rightarrow> Metrics \<Rightarrow> ('v, 'info) handled" where
  "infoHandler z enc_err req M0 =
     (let M1 = M0\<lparr>Requests := Requests M0 + 1, InfoRequests := InfoRequests M0 + 1\<rparr>
      in if parse_form_fails req
         then http_Error M1 [] ''failed to parse arguments'' 400
         else
          (let target = form req ''target'';
               format = form req ''format''
           in if target = []
              then http_Error M1 [] ''info: empty target'' 400
              else
               (case zInfo z target of
                  (infos, stats, err) \<Rightarrow>
                    (let M2 = sendStats stats M1;
                         cs = [CallInfo target]
                     in case err of
                          Some e \<Rightarrow> http_Error M2 cs ''info: error processing request'' 500
                        | None \<Rightarrow>
                           if format = formatTypeProtobuf \<or> format = formatTypeProtobuf3
                           then served M2 cs (Some contentTypeProtobuf)
                                  (PBZipperInfo (info_protobuf infos)) enc_err
                           else if format = formatTypeEmpty \<or> format = formatTypeJSON
                           then served M2 cs (Some contentTypeJSON) (JSONInfos infos) enc_err
                           else served M2 cs None NoBody False))))"


subsection \<open>Reading results, and sample inputs\<close>

text \<open>The values \<open>main\<close> assigns to \<open>searchConfigured\<close>, in order.\<close>

fun search_decisions :: "step list \<Rightarrow> bool list" where
  "search_decisions [] = []"
| "search_decisions (SetSearchConfigured b # ss) = b # search_decisions ss"
| "search_decisions (s # ss) = search_decisions ss"

text \<open>
  \<open>folded stats M M'\<close>: from \<open>M\<close> to \<open>M'\<close>, each counter that has a field of its name
  in \<open>Stats\<close> grew by that field, once.
\<close>

definition folded :: "Stats \<Rightarrow> Metrics \<Rightarrow> Metrics \<Rightarrow> bool" where
  "folded stats M M' =
     (Timeouts M' = Timeouts M + stTimeouts stats
      \<and> FindErrors M' = FindErrors M + stFindErrors stats
      \<and> RenderErrors M' = RenderErrors M + stRenderErrors stats
      \<and> InfoErrors M' = InfoErrors M + stInfoErrors stats
      \<and> SearchRequests M' = SearchRequests M + stSearchRequests stats
      \<and> SearchCacheHits M' = SearchCacheHits M + stSearchCacheHits stats
      \<and> SearchCacheMisses M' = SearchCacheMisses M + stSearchCacheMisses stats
      \<and> CacheMisses M' = CacheMisses M + stCacheMisses stats
      \<and> CacheHits M' = CacheHits M + stCacheHits stats)"

text \<open>A request with the given form values; an absent key reads as the empty string.\<close>

definition request_of :: "(string \<times> string) list \<Rightarrow> request" where
  "request_of kvs =
     \<lparr>parse_form_fails = False,
      form = (\<lambda>k. case map_of kvs k of None \<Rightarrow> [] | Some v \<Rightarrow> v)\<rparr>"

definition zero_Metrics :: Metrics where
  "zero_Metrics =
     \<lparr>Requests = 0, Responses = 0, Errors = 0, FindRequests = 0, FindErrors = 0,
      SearchRequests = 0, RenderRequests = 0, RenderErrors = 0, InfoRequests = 0,
      InfoErrors = 0, Timeouts = 0, CacheMisses = 0, CacheHits = 0,
      SearchCacheMisses = 0, SearchCacheHits = 0\<rparr>"

definition sample_Stats :: Stats where
  "sample_Stats =
     \<lparr>stTimeouts = 1, stFindErrors = 2, stRenderErrors = 3, stInfoErrors = 4,
      stSearchRequests = 5, stSearchCacheHits = 6, stSearchCacheMisses = 7,
      stCacheMisses = 8, stCacheHits = 9\<rparr>"

text \<open>
  Two engines over integer values and string metadata: one answers every call, the
  other fails every call; both return \<open>sample_Stats\<close>.
\<close>

definition sample_zipper :: "(int, string) Zipper" where
  "sample_zipper =
     \<lparr>zFind = (\<lambda>q. ([\<lparr>Path = ''a.b'', IsLeaf = True\<rparr>], sample_Stats, None)),
      zRender = (\<lambda>t f u.
         (\<lparr>mfrMetrics = [\<lparr>Name = t, StartTime = f, StopTime = u, StepTime = 60,
                            Values = [7, 0, 9], IsAbsent = [False, True, False]\<rparr>]\<rparr>,
          sample_Stats, None)),
      zInfo = (\<lambda>t. ([(''a'', ''A''), (''b'', ''B'')], sample_Stats, None))\<rparr>"

definition failing_zipper :: "(int, string) Zipper" where
  "failing_zipper =
     \<lparr>zFind = (\<lambda>q. ([], sample_Stats, Some ''all backends failed'')),
      zRender = (\<lambda>t f u. (\<lparr>mfrMetrics = []\<rparr>, sample_Stats, Some ''all backends failed'')),
      zInfo = (\<lambda>t. ([], sample_Stats, Some ''all backends failed''))\<rparr>"

definition sample_config :: "string list \<Rightarrow> string \<Rightarrow> string \<Rightarrow> Config" where
  "sample_config backends prefix backend =
     \<lparr>Backends = backends, Buckets = 10,
      CarbonSearch = \<lparr>Prefix = prefix, Backend = backend\<rparr>,
      GraphiteHost = [], GraphiteWeb09Compatibility = False\<rparr>"

definition sample_env :: "Config \<Rightarrow> startup_env" where
  "sample_env config =
     \<lparr>default_logger_fails = False, configFile = ''zipper.yaml'', pidFile = [],
      readFile = Some ''backends: ...'', unmarshal = (\<lambda>cfg. Some config),
      apply_logger_fails = False, graphite_env_host = '':'',
      pidfile_write_fails = False, serve_fails = False\<rparr>"


text \<open>
  The value sequence as the specification words it, to compare \<open>createRenderResponse\<close>
  with: position by position, the sentinel where the flag is set and the value
  otherwise.
\<close>

definition spec_values :: "'v iface \<Rightarrow> bool list \<Rightarrow> 'v list \<Rightarrow> 'v iface list" where
  "spec_values missing isAbsent vs =
     map (\<lambda>(a, v). if a then missing else Float64 v) (zip isAbsent vs)"

definition sample_request :: request where
  "sample_request =
     request_of [(''query'', ''a.*''), (''target'', ''a.b''), (''from'', ''0''), (''until'', ''60'')]"

section \<open>Theorems\<close>

subsection \<open>The histogram loop\<close>

lemma wrap_int_id: "- (2 ^ 63) \<le> k \<Longrightarrow> k < 2 ^ 63 \<Longrightarrow> wrap_int k = k"
  unfolding wrap_int_def by (rule signed_take_bit_int_eq_self)

lemma bucket_loop_at_least_50:
  assumes "50 \<le> sint ms" and "0 \<le> buckets" and "buckets + 1 < 2 ^ 63"
  shows "bucket_loop ms buckets 0 = -1"
proof -
  have "sint (bucket_threshold 0) = 50"
    by (simp add: bucket_threshold_def)
  moreover have "wrap_int (buckets + 1) = buckets + 1"
    using assms(2,3) by (intro wrap_int_id) simp_all
  ultimately show ?thesis
    using assms(1,2) by (simp add: bucket_loop.simps [of ms buckets 0])
qed

text \<open>
  What the loop does instead: from 50 ms on, the first test succeeds and the index is
  \<open>-1\<close> (for a bucket count whose successor does not wrap); below 50 ms no test
  succeeds (up to 56 buckets the thresholds do not wrap) and the overflow element is
  incremented.
\<close>

lemma bucketRequestTimes_panics_from_50ms:
  assumes "50 \<le> sint (duration_ms t)" and "0 \<le> buckets" and "buckets + 1 < 2 ^ 63"
  shows "bucketRequestTimes buckets tb t = Inl (IndexOutOfRange (- 1) (length tb))"
  using assms
  by (simp add: bucketRequestTimes_def Let_def bucket_loop_at_least_50 atomic_add_at_def)

lemma sint_bucket_threshold:
  assumes "0 \<le> bucket" and "bucket \<le> 57"
  shows "sint (bucket_threshold bucket) = 50 * 2 ^ nat bucket"
proof -
  have le: "(2 :: int) ^ nat bucket \<le> 2 ^ 57"
    using assms by (intro power_increasing) simp_all
  have "bucket_threshold bucket = word_of_int (50 * 2 ^ nat bucket)"
    by (simp add: bucket_threshold_def push_bit_eq_mult)
  moreover have "sint (word_of_int (50 * 2 ^ nat bucket) :: 64 word) = 50 * 2 ^ nat bucket"
  proof -
    have "- (2 ^ 63) \<le> (50 :: int) * 2 ^ nat bucket"
      by (rule order_trans [of _ 0]) simp_all
    moreover have "(50 :: int) * 2 ^ nat bucket < 2 ^ 63"
      using le by simp
    ultimately have "signed_take_bit 63 ((50 :: int) * 2 ^ nat bucket) = 50 * 2 ^ nat bucket"
      by (rule signed_take_bit_int_eq_self)
    moreover have "sint (word_of_int k :: 64 word) = signed_take_bit 63 k" for k
      by (simp add: sint_sbintrunc')
    ultimately show ?thesis
      by (simp only:)
  qed
  ultimately show ?thesis by simp
qed

lemma bucket_loop_below_50:
  assumes "sint ms < 50" and "buckets \<le> 56" and "0 \<le> bucket" and "bucket \<le> buckets + 1"
  shows "bucket_loop ms buckets bucket = buckets + 1"
  using assms
proof (induction ms buckets bucket rule: bucket_loop.induct)
  case (1 ms buckets bucket)
  have w: "wrap_int (buckets + 1) = buckets + 1"
    using 1(3,4,5) by (intro wrap_int_id) simp_all
  show ?case
  proof (cases "bucket < buckets + 1")
    case True
    with 1 have "sint (bucket_threshold bucket) = 50 * 2 ^ nat bucket"
      by (intro sint_bucket_threshold) simp_all
    moreover have "(1 :: int) \<le> 2 ^ nat bucket"
      by simp
    ultimately have "\<not> sint (bucket_threshold bucket) \<le> sint ms"
      using 1(2) by linarith
    with True 1 show ?thesis
      by (simp add: bucket_loop.simps [of ms buckets bucket] w)
  next
    case False
    with 1(5) have "bucket = buckets + 1" by simp
    then show ?thesis
      by (simp add: bucket_loop.simps [of ms buckets "buckets + 1"] w)
  qed
qed

lemma bucketRequestTimes_overflow_below_50ms:
  assumes "sint (duration_ms t) < 50" and "0 \<le> buckets" and "buckets \<le> 56"
    and "length tb = nat (buckets + 1)"
  shows "bucketRequestTimes buckets tb t = Inr (tb[nat buckets := tb ! nat buckets + 1], True)"
  using assms
  by (simp add: bucketRequestTimes_def Let_def bucket_loop_below_50 atomic_add_at_def)

text \<open>
  Claim C8. The claim: for every duration \<open>d\<close> and bucket count \<open>B \<ge> 1\<close>,
  \<open>bucketRequestTimes\<close> increments exactly one element of \<open>timeBuckets\<close>, at the
  index in \<open>[0, B-1]\<close> whose range contains \<open>d\<close>, or at \<open>B\<close> from
  \<open>50 * 2^(B-1)\<close> ms on. The code does not: with \<open>B = 10\<close>, a request of 60 ms lies
  in the range of bucket 1 and the slice access panics with index \<open>-1\<close>, so that no
  element is incremented; a request of 10 ms lies in the range of bucket 0 and the
  overflow element 10 is incremented (and the request is logged as slow).
\<close>

theorem bucketRequestTimes_misplaces:
  "bucket_lower 1 \<le> sint (duration_ms 60000000) \<and> sint (duration_ms 60000000) < bucket_upper 1
   \<and> make_timeBuckets 10 = Inr (replicate 11 0)
   \<and> bucketRequestTimes 10 (replicate 11 0) 60000000 = Inl (IndexOutOfRange (- 1) 11)
   \<and> bucket_lower 0 \<le> sint (duration_ms 10000000) \<and> sint (duration_ms 10000000) < bucket_upper 0
   \<and> bucketRequestTimes 10 (replicate 11 0) 10000000 = Inr ((replicate 11 0)[10 := 1], True)"
  by (simp add: bucketRequestTimes_def duration_ms_def go_quot_def bucket_loop.simps wrap_int_def
      bucket_threshold_def atomic_add_at_def make_timeBuckets_def bucket_lower_def bucket_upper_def)

subsection \<open>Start-up\<close>

text \<open>\<open>main\<close> once the configuration is loaded (from line 617 on).\<close>

lemma main_loaded:
  assumes "\<not> default_logger_fails env" "configFile env \<noteq> []" "readFile env = Some cfg"
    "unmarshal env cfg = Some config"
  shows "main env =
     (if length (Backends config) = 0
                   then stop (Fatal ''no Backends loaded -- exiting'')
                          [ApplyDefaultLogger, ParseFlags, ReadConfigFile, UnmarshalConfig] False []
                   else if apply_logger_fails env
                   then stop (Fatal ''Failed to apply config'')
                          [ApplyDefaultLogger, ParseFlags, ReadConfigFile, UnmarshalConfig,
                           ApplyLoggerConfig] False []
                   else
                     (let sc = (length (Prefix (CarbonSearch config)) > 0
                                \<and> length (Backend (CarbonSearch config)) > 0);
                          ss = [ApplyDefaultLogger, ParseFlags, ReadConfigFile, UnmarshalConfig,
                                ApplyLoggerConfig, SetSearchConfigured sc, MakeTimeBuckets]
                      in case make_timeBuckets (Buckets config) of
                           Inl p \<Rightarrow> stop (Fatal ''Recovered from unhandled panic'') ss sc []
                         | Inr tb \<Rightarrow> serve_phase env config ss sc tb))"
  using assms by (simp add: main_def)

lemma serve_phase_fields:
  "searchConfigured (serve_phase env config ss sc tb) = sc"
  "\<exists>more. steps (serve_phase env config ss sc tb) = ss @ more \<and> search_decisions more = []"
  "exit (serve_phase env config ss sc tb) \<noteq> Fatal ''no Backends loaded -- exiting''"
  by (simp_all add: serve_phase_def stop_def Let_def)

lemma search_decisions_append: "search_decisions (xs @ ys) = search_decisions xs @ search_decisions ys"
  by (induction xs rule: search_decisions.induct) simp_all


lemma serve_phase_keeps:
  "x \<in> set ss \<Longrightarrow> x \<in> set (steps (serve_phase env config ss sc tb))"
  by (simp add: serve_phase_def stop_def Let_def)

text \<open>
  Claim C5. Once the configuration is loaded, an empty backend list ends start-up with
  the fatal "no Backends loaded" before \<open>zipper.NewZipper\<close> and before
  \<open>gracehttp.Serve\<close> are called; with a backend, start-up does not stop there and goes
  on to the next call, \<open>zapwriter.ApplyConfig(config.Logger)\<close>.
\<close>

theorem startup_requires_backends:
  assumes "\<not> default_logger_fails env" "configFile env \<noteq> []" "readFile env = Some cfg"
    "unmarshal env cfg = Some config"
  shows "(Backends config = [] \<longrightarrow>
            exit (main env) = Fatal ''no Backends loaded -- exiting''
            \<and> NewZipper \<notin> set (steps (main env)) \<and> Serve \<notin> set (steps (main env)))
       \<and> (Backends config \<noteq> [] \<longrightarrow>
            exit (main env) \<noteq> Fatal ''no Backends loaded -- exiting''
            \<and> ApplyLoggerConfig \<in> set (steps (main env)))"
proof (cases "Backends config = []")
  case True
  then show ?thesis by (simp add: main_loaded [OF assms] stop_def)
next
  case False
  then show ?thesis
    by (simp add: main_loaded [OF assms] stop_def Let_def serve_phase_fields serve_phase_keeps
        split: sum.split)
qed

theorem startup_requires_backends_witness:
  "exit (main (sample_env (sample_config [] [] []))) = Fatal ''no Backends loaded -- exiting''
   \<and> NewZipper \<notin> set (steps (main (sample_env (sample_config [] [] []))))
   \<and> Serve \<notin> set (steps (main (sample_env (sample_config [] [] []))))
   \<and> exit (main (sample_env (sample_config [''10.0.0.1:8080''] [] [])))
        \<noteq> Fatal ''no Backends loaded -- exiting''
   \<and> ApplyLoggerConfig \<in> set (steps (main (sample_env (sample_config [''10.0.0.1:8080''] [] []))))"
  using startup_requires_backends [of "sample_env (sample_config [] [] [])" "''backends: ...''"
      "sample_config [] [] []"]
    startup_requires_backends [of "sample_env (sample_config [''10.0.0.1:8080''] [] [])"
      "''backends: ...''" "sample_config [''10.0.0.1:8080''] [] []"]
  by (simp add: sample_env_def sample_config_def)

text \<open>
  Claim C6. When start-up reaches line 638, \<open>searchConfigured\<close> is true exactly when
  both \<open>CarbonSearch.Prefix\<close> and \<open>CarbonSearch.Backend\<close> are non-empty, and it is
  assigned once.
\<close>

theorem searchConfigured_iff:
  assumes "\<not> default_logger_fails env" "configFile env \<noteq> []" "readFile env = Some cfg"
    "unmarshal env cfg = Some config" "Backends config \<noteq> []" "\<not> apply_logger_fails env"
  shows "searchConfigured (main env)
           = (Prefix (CarbonSearch config) \<noteq> [] \<and> Backend (CarbonSearch config) \<noteq> [])
       \<and> search_decisions (steps (main env))
           = [Prefix (CarbonSearch config) \<noteq> [] \<and> Backend (CarbonSearch config) \<noteq> []]"
proof (cases "make_timeBuckets (Buckets config)")
  case (Inl p)
  with assms(5,6) show ?thesis
    by (simp add: main_loaded [OF assms(1-4)] stop_def Let_def)
next
  case (Inr tb)
  let ?sc = "Prefix (CarbonSearch config) \<noteq> [] \<and> Backend (CarbonSearch config) \<noteq> []"
  let ?ss = "[ApplyDefaultLogger, ParseFlags, ReadConfigFile, UnmarshalConfig,
              ApplyLoggerConfig, SetSearchConfigured ?sc, MakeTimeBuckets]"
  have m: "main env = serve_phase env config ?ss ?sc tb"
    using assms(5,6) Inr by (simp add: main_loaded [OF assms(1-4)] Let_def)
  obtain more where "steps (serve_phase env config ?ss ?sc tb) = ?ss @ more"
    and "search_decisions more = []"
    using serve_phase_fields(2) by blast
  then show ?thesis
    by (simp add: m serve_phase_fields(1) search_decisions_append)
qed

theorem searchConfigured_iff_witness:
  "searchConfigured (main (sample_env (sample_config [''10.0.0.1:8080''] ''virt.'' ''10.0.0.9:8070'')))
   \<and> \<not> searchConfigured (main (sample_env (sample_config [''10.0.0.1:8080''] ''virt.'' [])))
   \<and> \<not> searchConfigured (main (sample_env (sample_config [''10.0.0.1:8080''] [] ''10.0.0.9:8070'')))
   \<and> search_decisions (steps (main (sample_env
         (sample_config [''10.0.0.1:8080''] ''virt.'' ''10.0.0.9:8070'')))) = [True]"
  using searchConfigured_iff [of "sample_env (sample_config [''10.0.0.1:8080''] ''virt.'' ''10.0.0.9:8070'')"
      "''backends: ...''" "sample_config [''10.0.0.1:8080''] ''virt.'' ''10.0.0.9:8070''"]
    searchConfigured_iff [of "sample_env (sample_config [''10.0.0.1:8080''] ''virt.'' [])"
      "''backends: ...''" "sample_config [''10.0.0.1:8080''] ''virt.'' []"]
    searchConfigured_iff [of "sample_env (sample_config [''10.0.0.1:8080''] [] ''10.0.0.9:8070'')"
      "''backends: ...''" "sample_config [''10.0.0.1:8080''] [] ''10.0.0.9:8070''"]
  by (simp add: sample_env_def sample_config_def)

subsection \<open>The handlers: engine calls and counters\<close>

lemma engine_calls_simps [simp]:
  "engine_calls (http_Error M cs msg code) = cs"
  "engine_calls (served M cs ct b e) = cs"
  "engine_calls (panicking M cs ct p) = cs"
  by (simp_all add: http_Error_def served_def panicking_def)

lemma engine_calls_render_switch [simp]:
  "engine_calls (render_switch M cs e format metrics) = cs"
  by (simp add: render_switch_def split: sum.split)

lemma http_code_simps [simp]:
  "http_code (http_Error M cs msg code) = Some code"
  "http_code (served M cs ct b e) = Some (if e then 500 else 200)"
  by (simp_all add: http_Error_def served_def)

lemma folded_sendStats:
  "folded stats M (sendStats stats (M\<lparr>Requests := a, FindRequests := b\<rparr>))"
  "folded stats M (sendStats stats (M\<lparr>Requests := a, RenderRequests := b\<rparr>))"
  "folded stats M (sendStats stats (M\<lparr>Requests := a, InfoRequests := b\<rparr>))"
  by (simp_all add: folded_def sendStats_def)

lemma folded_results:
  assumes "folded stats M M2"
  shows "folded stats M (counters (http_Error M2 cs msg code))"
    and "folded stats M (counters (served M2 cs ct b e))"
    and "folded stats M (counters (panicking M2 cs ct p))"
  using assms by (simp_all add: folded_def http_Error_def served_def panicking_def)

lemma folded_render_switch:
  assumes "folded stats M M2"
  shows "folded stats M (counters (render_switch M2 cs e format metrics))"
  by (simp add: render_switch_def folded_results [OF assms] split: sum.split)

lemma findHandler_calls:
  "engine_calls (findHandler z c u e req M) = [CallFind (form req ''query'')]"
  by (simp add: findHandler_def Let_def split: prod.split option.split)

lemma findHandler_folded:
  assumes "zFind z (form req ''query'') = (ms, stats, err)"
  shows "folded stats M (counters (findHandler z c u e req M))"
  using assms
  by (simp add: findHandler_def Let_def folded_results folded_sendStats split: prod.split option.split)

lemma renderHandler_folded:
  assumes "engine_calls (renderHandler z e req M) = [CallRender t f u]"
    and "zRender z t f u = (resp, stats, err)"
  shows "folded stats M (counters (renderHandler z e req M))"
  using assms
  by (auto simp add: renderHandler_def Let_def folded_results folded_sendStats folded_render_switch
      split: prod.splits option.splits if_splits)

lemma infoHandler_folded:
  assumes "engine_calls (infoHandler z e req M) = [CallInfo t]"
    and "zInfo z t = (infos, stats, err)"
  shows "folded stats M (counters (infoHandler z e req M))"
  using assms
  by (auto simp add: infoHandler_def Let_def folded_results folded_sendStats
      split: prod.splits option.splits if_splits)

lemma http_code_render_switch:
  "http_code (render_switch M cs e format metrics) \<noteq> Some 400"
  by (simp add: render_switch_def panicking_def split: sum.split)

text \<open>
  Claim C4. Each handler that calls the engine calls it once and adds every field of
  the \<open>Stats\<close> it returns to the counter of the same name, once, whether the
  engine's error is nil or not (\<open>err\<close> is arbitrary), and whatever happens afterwards
  in the handler.
\<close>

theorem stats_folded_once:
  "engine_calls (findHandler z c u e req M) = [CallFind (form req ''query'')]
   \<and> (zFind z (form req ''query'') = (ms, stats, err) \<longrightarrow>
        folded stats M (counters (findHandler z c u e req M)))
   \<and> (engine_calls (renderHandler z e req M) = [CallRender t f v] \<longrightarrow>
        zRender z t f v = (resp, stats', err') \<longrightarrow>
        folded stats' M (counters (renderHandler z e req M)))
   \<and> (engine_calls (infoHandler z e req M) = [CallInfo t'] \<longrightarrow>
        zInfo z t' = (infos, stats'', err'') \<longrightarrow>
        folded stats'' M (counters (infoHandler z e req M)))"
proof (intro conjI impI)
  show "engine_calls (findHandler z c u e req M) = [CallFind (form req ''query'')]"
    by (rule findHandler_calls)
  show "folded stats M (counters (findHandler z c u e req M))"
    if "zFind z (form req ''query'') = (ms, stats, err)"
    using that by (rule findHandler_folded)
  show "folded stats' M (counters (renderHandler z e req M))"
    if "engine_calls (renderHandler z e req M) = [CallRender t f v]"
      and "zRender z t f v = (resp, stats', err')"
    using that by (rule renderHandler_folded)
  show "folded stats'' M (counters (infoHandler z e req M))"
    if "engine_calls (infoHandler z e req M) = [CallInfo t']"
      and "zInfo z t' = (infos, stats'', err'')"
    using that by (rule infoHandler_folded)
qed

text \<open>\<open>strconv.Atoi\<close> on some inputs.\<close>

lemma atoi_examples:
  "Atoi ''0'' = Some 0" "Atoi ''60'' = Some 60" "Atoi ''4294967297'' = Some 4294967297"
  "Atoi ''-2147483649'' = Some (- 2147483649)" "Atoi ''abc'' = None" "Atoi [] = None"
  "Atoi ''9223372036854775808'' = None" "Atoi ''+'' = None" "Atoi ''+12'' = Some 12"
  by (simp_all add: Atoi_def is_digit_def)

theorem stats_folded_once_witness:
  "folded sample_Stats zero_Metrics
     (counters (findHandler sample_zipper False 0 False sample_request zero_Metrics))
   \<and> folded sample_Stats zero_Metrics
     (counters (findHandler failing_zipper False 0 False sample_request zero_Metrics))
   \<and> folded sample_Stats zero_Metrics
     (counters (renderHandler sample_zipper False sample_request zero_Metrics))
   \<and> folded sample_Stats zero_Metrics
     (counters (renderHandler failing_zipper False sample_request zero_Metrics))
   \<and> folded sample_Stats zero_Metrics
     (counters (infoHandler sample_zipper False sample_request zero_Metrics))
   \<and> folded sample_Stats zero_Metrics
     (counters (infoHandler failing_zipper False sample_request zero_Metrics))"
  using
    stats_folded_once [where z = sample_zipper and c = False and u = 0 and e = False
      and req = sample_request and M = zero_Metrics
      and ms = "[\<lparr>Path = ''a.b'', IsLeaf = True\<rparr>]" and stats = sample_Stats and err = None
      and t = "''a.b''" and f = 0 and v = 60
      and resp = "\<lparr>mfrMetrics = [\<lparr>Name = ''a.b'', StartTime = 0, StopTime = 60, StepTime = 60,
                            Values = [7, 0, 9], IsAbsent = [False, True, False]\<rparr>]\<rparr>"
      and stats' = sample_Stats and err' = None and t' = "''a.b''"
      and infos = "[(''a'', ''A''), (''b'', ''B'')]" and stats'' = sample_Stats and err'' = None]
    stats_folded_once [where z = failing_zipper and c = False and u = 0 and e = False
      and req = sample_request and M = zero_Metrics
      and ms = "[]" and stats = sample_Stats and err = "Some ''all backends failed''"
      and t = "''a.b''" and f = 0 and v = 60
      and resp = "\<lparr>mfrMetrics = []\<rparr>"
      and stats' = sample_Stats and err' = "Some ''all backends failed''" and t' = "''a.b''"
      and infos = "[]" and stats'' = sample_Stats and err'' = "Some ''all backends failed''"]
  by (simp add: sample_zipper_def failing_zipper_def sample_request_def request_of_def
      renderHandler_def infoHandler_def Atoi_def is_digit_def to_int32_def Let_def)

subsection \<open>Validation at the boundary\<close>

lemma request_of_absent: "form (request_of []) k = []" "\<not> parse_form_fails (request_of kvs)"
  by (simp_all add: request_of_def)

lemma render_info_reject_empty_target:
  assumes "form req ''target'' = []"
  shows "http_code (renderHandler z e req M) = Some 400 \<and> engine_calls (renderHandler z e req M) = []
       \<and> http_code (infoHandler z e' req M') = Some 400 \<and> engine_calls (infoHandler z e' req M') = []"
  using assms
  by (simp add: renderHandler_def infoHandler_def Let_def split: option.split)

lemma findHandler_http_code:
  "http_code (findHandler z c u e req M) = Some 200 \<or> http_code (findHandler z c u e req M) = Some 500"
  by (simp add: findHandler_def Let_def split: prod.split option.split)

text \<open>
  Claim C1. The claim: a Find, Render or Info request with an empty query or target is
  answered with 400 and the engine is not called. \<open>renderHandler\<close> and
  \<open>infoHandler\<close> do so (lemma \<open>render_info_reject_empty_target\<close>);
  \<open>findHandler\<close> has no such test: for a request without \<open>query\<close> it calls
  \<open>zipper.Find\<close> with the empty string and answers 200 or 500, never 400.
\<close>

theorem findHandler_empty_query_reaches_engine:
  "engine_calls (findHandler z c u e (request_of []) M) = [CallFind []]
   \<and> http_code (findHandler z c u e (request_of []) M) \<noteq> Some 400
   \<and> engine_calls (findHandler sample_zipper False 0 False (request_of [(''query'', [])]) zero_Metrics)
        = [CallFind []]
   \<and> http_code (findHandler sample_zipper False 0 False (request_of [(''query'', [])]) zero_Metrics)
        = Some 200
   \<and> engine_calls (infoHandler z e (request_of []) M) = []
   \<and> http_code (infoHandler z e (request_of []) M) = Some 400"
proof -
  have "http_code (findHandler z c u e (request_of []) M) \<noteq> Some 400"
    using findHandler_http_code [of z c u e "request_of []" M] by auto
  moreover have "http_code (findHandler sample_zipper False 0 False (request_of [(''query'', [])]) zero_Metrics)
        = Some 200"
    by (simp add: findHandler_def sample_zipper_def request_of_def encodeFindResponse_def
        formatTypeProtobuf_def formatTypeProtobuf3_def formatTypeJSON_def formatTypeEmpty_def Let_def)
  ultimately show ?thesis
    by (simp add: findHandler_calls request_of_absent render_info_reject_empty_target request_of_def)
qed

text \<open>\<open>int32(x)\<close> is the representative of \<open>x\<close> modulo \<open>2^32\<close> in the range of \<open>int32\<close>.\<close>

lemma to_int32_sint: "sint (to_int32 x) = signed_take_bit 31 (sint x)"
proof -
  have "sint (to_int32 x) = signed_take_bit 31 (uint x)"
    by (simp add: to_int32_def signed_ucast_eq)
  also have "\<dots> = signed_take_bit 31 (signed_take_bit 63 (uint x))"
    by (simp add: signed_take_bit_signed_take_bit)
  also have "signed_take_bit 63 (uint x) = sint x"
    by (simp add: sint_uint)
  finally show ?thesis .
qed

lemma signed_take_bit_31_cong: "(signed_take_bit 31 k - k) mod 2 ^ 32 = (0 :: int)"
proof -
  have "take_bit 32 (signed_take_bit 31 k) = take_bit 32 k"
    by (simp add: take_bit_signed_take_bit)
  then have "signed_take_bit 31 k mod 2 ^ 32 = k mod 2 ^ 32"
    by (simp only: take_bit_eq_mod)
  then have "(2 ^ 32 :: int) dvd signed_take_bit 31 k - k"
    by (simp only: mod_eq_dvd_iff)
  then show ?thesis
    by (simp only: mod_eq_0_iff_dvd)
qed

lemma to_int32_reduced:
  "- (2 ^ 31) \<le> sint (to_int32 x) \<and> sint (to_int32 x) < 2 ^ 31
   \<and> (sint (to_int32 x) - sint x) mod 2 ^ 32 = 0"
proof -
  have "(sint (to_int32 x) - sint x) mod 2 ^ 32 = 0"
    by (simp only: to_int32_sint signed_take_bit_31_cong)
  with sint_ge [of "to_int32 x"] sint_lt [of "to_int32 x"] show ?thesis
    by simp
qed

lemma to_int32_examples:
  "to_int32 4294967297 = 1" "to_int32 (- 2147483649) = 2147483647" "to_int32 0 = 0" "to_int32 60 = 60"
  by (simp_all add: to_int32_def)

text \<open>
  What \<open>renderHandler\<close> does with the engine. A request that passes the four tests
  is answered from the triple that \<open>zipper.Render\<close> returns at the target and the two
  converted bounds; a request that fails one is answered without the engine, so that
  the answer is the same for every engine.
\<close>

lemma renderHandler_applies_engine:
  assumes "\<not> parse_form_fails req" and "form req ''target'' \<noteq> []"
    and "Atoi (form req ''from'') = Some f" and "Atoi (form req ''until'') = Some u"
    and "zRender z (form req ''target'') (to_int32 f) (to_int32 u) = (resp, stats, err)"
  shows "renderHandler z e req M =
     (case err of
        Some m \<Rightarrow>
          http_Error (sendStats stats (M\<lparr>Requests := Requests M + 1, RenderRequests := RenderRequests M + 1\<rparr>))
            [CallRender (form req ''target'') (to_int32 f) (to_int32 u)] ''error fetching the data'' 500
      | None \<Rightarrow>
          render_switch (sendStats stats (M\<lparr>Requests := Requests M + 1, RenderRequests := RenderRequests M + 1\<rparr>))
            [CallRender (form req ''target'') (to_int32 f) (to_int32 u)] e (form req ''format'') resp)"
  using assms by (simp add: renderHandler_def Let_def)

lemma renderHandler_engine_outcome:
  assumes "\<not> parse_form_fails req" and "form req ''target'' \<noteq> []"
    and "Atoi (form req ''from'') = Some f" and "Atoi (form req ''until'') = Some u"
    and "zRender z (form req ''target'') (to_int32 f) (to_int32 u) = (resp, stats, err)"
  shows "folded stats M (counters (renderHandler z e req M))"
    and "err = Some m \<Longrightarrow> http_code (renderHandler z e req M) = Some 500
           \<and> body (renderHandler z e req M) = ErrorText ''error fetching the data''"
    and "err = None \<Longrightarrow> form req ''format'' = formatTypeProtobuf \<Longrightarrow> \<not> e \<Longrightarrow>
           http_code (renderHandler z e req M) = Some 200
           \<and> body (renderHandler z e req M) = PBMultiFetch resp"
proof -
  note eq = renderHandler_applies_engine [OF assms, of e M]
  show "folded stats M (counters (renderHandler z e req M))"
    unfolding eq
    by (cases err) (simp_all add: folded_results folded_render_switch folded_sendStats)
  show "http_code (renderHandler z e req M) = Some 500
           \<and> body (renderHandler z e req M) = ErrorText ''error fetching the data''"
    if "err = Some m"
    unfolding eq using that by (simp add: http_Error_def)
  show "http_code (renderHandler z e req M) = Some 200
           \<and> body (renderHandler z e req M) = PBMultiFetch resp"
    if "err = None" and "form req ''format'' = formatTypeProtobuf" and "\<not> e"
    unfolding eq using that by (simp add: render_switch_def served_def)
qed

lemma renderHandler_rejects_without_engine:
  assumes "parse_form_fails req \<or> Atoi (form req ''from'') = None \<or> Atoi (form req ''until'') = None
      \<or> form req ''target'' = []"
  shows "renderHandler z e req M = renderHandler z' e req M"
    and "http_code (renderHandler z e req M) = Some 400"
    and "engine_calls (renderHandler z e req M) = []"
  using assms by (auto simp add: renderHandler_def Let_def split: option.split)

text \<open>
  Claim C7. \<open>renderHandler\<close> parses \<open>from\<close> and \<open>until\<close> with \<open>strconv.Atoi\<close>.
  When either fails, the answer is 400 and the engine is not invoked: no call is
  recorded and the answer does not depend on the engine. When both parse and the
  request passes the two other tests of the handler (the form parses and the target is
  not empty, which is claim C1), \<open>zipper.Render\<close> is applied to the target,
  \<open>int32(from)\<close> and \<open>int32(until)\<close>, and the answer comes from what it returns
  there: its stats are folded into the counters, its error gives 500, and its series
  are the protobuf body. With an empty target the answer is 400, again without the
  engine.
\<close>

theorem renderHandler_from_until:
  "(Atoi (form req ''from'') = None \<or> Atoi (form req ''until'') = None \<longrightarrow>
      http_code (renderHandler z e req M) = Some 400
      \<and> engine_calls (renderHandler z e req M) = []
      \<and> renderHandler z' e req M = renderHandler z e req M)
   \<and> (\<not> parse_form_fails req \<longrightarrow> form req ''target'' \<noteq> [] \<longrightarrow>
      Atoi (form req ''from'') = Some f \<longrightarrow> Atoi (form req ''until'') = Some u \<longrightarrow>
      engine_calls (renderHandler z e req M)
         = [CallRender (form req ''target'') (to_int32 f) (to_int32 u)]
      \<and> (zRender z (form req ''target'') (to_int32 f) (to_int32 u) = (resp, stats, err) \<longrightarrow>
            folded stats M (counters (renderHandler z e req M))
            \<and> (err \<noteq> None \<longrightarrow>
                  http_code (renderHandler z e req M) = Some 500
                  \<and> body (renderHandler z e req M) = ErrorText ''error fetching the data'')
            \<and> (err = None \<longrightarrow> form req ''format'' = formatTypeProtobuf \<longrightarrow> \<not> e \<longrightarrow>
                  http_code (renderHandler z e req M) = Some 200
                  \<and> body (renderHandler z e req M) = PBMultiFetch resp)))
   \<and> (form req ''target'' = [] \<longrightarrow>
      http_code (renderHandler z e req M) = Some 400
      \<and> engine_calls (renderHandler z e req M) = []
      \<and> renderHandler z' e req M = renderHandler z e req M)"
proof (intro conjI impI)
  assume "Atoi (form req ''from'') = None \<or> Atoi (form req ''until'') = None"
  then have r: "parse_form_fails req \<or> Atoi (form req ''from'') = None
      \<or> Atoi (form req ''until'') = None \<or> form req ''target'' = []"
    by blast
  show "http_code (renderHandler z e req M) = Some 400"
    using r by (rule renderHandler_rejects_without_engine(2))
  show "engine_calls (renderHandler z e req M) = []"
    using r by (rule renderHandler_rejects_without_engine(3))
  show "renderHandler z' e req M = renderHandler z e req M"
    using r by (rule renderHandler_rejects_without_engine(1))
next
  assume "form req ''target'' = []"
  then have r: "parse_form_fails req \<or> Atoi (form req ''from'') = None
      \<or> Atoi (form req ''until'') = None \<or> form req ''target'' = []"
    by blast
  show "http_code (renderHandler z e req M) = Some 400"
    using r by (rule renderHandler_rejects_without_engine(2))
  show "engine_calls (renderHandler z e req M) = []"
    using r by (rule renderHandler_rejects_without_engine(3))
  show "renderHandler z' e req M = renderHandler z e req M"
    using r by (rule renderHandler_rejects_without_engine(1))
next
  assume h: "\<not> parse_form_fails req" "form req ''target'' \<noteq> []"
    "Atoi (form req ''from'') = Some f" "Atoi (form req ''until'') = Some u"
  show "engine_calls (renderHandler z e req M)
         = [CallRender (form req ''target'') (to_int32 f) (to_int32 u)]"
    using h by (simp add: renderHandler_def Let_def split: prod.split option.split)
  assume a: "zRender z (form req ''target'') (to_int32 f) (to_int32 u) = (resp, stats, err)"
  show "folded stats M (counters (renderHandler z e req M))"
    using h a by (rule renderHandler_engine_outcome(1))
  show "http_code (renderHandler z e req M) = Some 500"
      and "body (renderHandler z e req M) = ErrorText ''error fetching the data''"
    if "err \<noteq> None"
    using renderHandler_engine_outcome(2) [OF h a, of _ e M] that by auto
  show "http_code (renderHandler z e req M) = Some 200"
      and "body (renderHandler z e req M) = PBMultiFetch resp"
    if "err = None" and "form req ''format'' = formatTypeProtobuf" and "\<not> e"
    using renderHandler_engine_outcome(3) [OF h a that] by simp_all
qed

theorem renderHandler_from_until_witness:
  "http_code (renderHandler sample_zipper False
      (request_of [(''target'', ''a.b''), (''from'', ''abc''), (''until'', ''60'')]) zero_Metrics) = Some 400
   \<and> engine_calls (renderHandler sample_zipper False
      (request_of [(''target'', ''a.b''), (''from'', ''abc''), (''until'', ''60'')]) zero_Metrics) = []
   \<and> renderHandler failing_zipper False
        (request_of [(''target'', ''a.b''), (''from'', ''abc''), (''until'', ''60'')]) zero_Metrics
      = renderHandler sample_zipper False
        (request_of [(''target'', ''a.b''), (''from'', ''abc''), (''until'', ''60'')]) zero_Metrics
   \<and> engine_calls (renderHandler sample_zipper False
        (request_of [(''target'', ''a.b''), (''from'', ''0''), (''until'', ''60''), (''format'', ''protobuf'')])
        zero_Metrics) = [CallRender ''a.b'' 0 60]
   \<and> body (renderHandler sample_zipper False
        (request_of [(''target'', ''a.b''), (''from'', ''0''), (''until'', ''60''), (''format'', ''protobuf'')])
        zero_Metrics)
      = PBMultiFetch \<lparr>mfrMetrics = [\<lparr>Name = ''a.b'', StartTime = 0, StopTime = 60, StepTime = 60,
                            Values = [7, 0, 9], IsAbsent = [False, True, False]\<rparr>]\<rparr>
   \<and> http_code (renderHandler failing_zipper False
        (request_of [(''target'', ''a.b''), (''from'', ''0''), (''until'', ''60''), (''format'', ''protobuf'')])
        zero_Metrics) = Some 500"
  using
    renderHandler_from_until [where z = sample_zipper and z' = failing_zipper and e = False
      and M = zero_Metrics
      and req = "request_of [(''target'', ''a.b''), (''from'', ''abc''), (''until'', ''60'')]"]
    renderHandler_from_until [where z = sample_zipper and e = False and M = zero_Metrics
      and req = "request_of [(''target'', ''a.b''), (''from'', ''0''), (''until'', ''60''), (''format'', ''protobuf'')]"
      and f = 0 and u = 60 and stats = sample_Stats and err = None
      and resp = "\<lparr>mfrMetrics = [\<lparr>Name = ''a.b'', StartTime = 0, StopTime = 60, StepTime = 60,
                            Values = [7, 0, 9], IsAbsent = [False, True, False]\<rparr>]\<rparr>"]
    renderHandler_from_until [where z = failing_zipper and e = False and M = zero_Metrics
      and req = "request_of [(''target'', ''a.b''), (''from'', ''0''), (''until'', ''60''), (''format'', ''protobuf'')]"
      and f = 0 and u = 60 and stats = sample_Stats and err = "Some ''all backends failed''"
      and resp = "\<lparr>mfrMetrics = []\<rparr>"]
  by (simp add: request_of_def atoi_examples to_int32_examples sample_zipper_def failing_zipper_def
      formatTypeProtobuf_def)

text \<open>
  Claim C10. A \<open>from\<close> or \<open>until\<close> that fits \<open>int\<close> is never rejected for its
  size: whenever both parse (and the form parses and the target is not empty), the
  answer is not 400, and \<open>zipper.Render\<close> is applied to, for each, the value of the
  range of \<open>int32\<close> that is congruent to it modulo \<open>2^32\<close>: the answer is built
  from what the engine returns at these two values. The witness takes
  \<open>from = 2^32 + 1\<close> and \<open>until = - 2^31 - 1\<close>; the sample engine copies its
  arguments into the series it returns, where they show as 1 and \<open>2^31 - 1\<close>.
\<close>

theorem renderHandler_truncates_to_int32:
  assumes "\<not> parse_form_fails req" and "form req ''target'' \<noteq> []"
    and "Atoi (form req ''from'') = Some f" and "Atoi (form req ''until'') = Some u"
    and "zRender z (form req ''target'') (to_int32 f) (to_int32 u) = (resp, stats, err)"
  shows "http_code (renderHandler z e req M) \<noteq> Some 400
       \<and> engine_calls (renderHandler z e req M)
           = [CallRender (form req ''target'') (to_int32 f) (to_int32 u)]
       \<and> folded stats M (counters (renderHandler z e req M))
       \<and> (err \<noteq> None \<longrightarrow>
             http_code (renderHandler z e req M) = Some 500
             \<and> body (renderHandler z e req M) = ErrorText ''error fetching the data'')
       \<and> (err = None \<longrightarrow> form req ''format'' = formatTypeProtobuf \<longrightarrow> \<not> e \<longrightarrow>
             http_code (renderHandler z e req M) = Some 200
             \<and> body (renderHandler z e req M) = PBMultiFetch resp)
       \<and> - (2 ^ 31) \<le> sint (to_int32 f) \<and> sint (to_int32 f) < 2 ^ 31
       \<and> (sint (to_int32 f) - sint f) mod 2 ^ 32 = 0
       \<and> - (2 ^ 31) \<le> sint (to_int32 u) \<and> sint (to_int32 u) < 2 ^ 31
       \<and> (sint (to_int32 u) - sint u) mod 2 ^ 32 = 0"
proof -
  note h = assms(1-4)
  have calls: "engine_calls (renderHandler z e req M)
      = [CallRender (form req ''target'') (to_int32 f) (to_int32 u)]"
    using h by (simp add: renderHandler_def Let_def split: prod.split option.split)
  have code: "http_code (renderHandler z e req M) \<noteq> Some 400"
    using h
    by (simp add: renderHandler_def Let_def http_code_render_switch split: prod.split option.split)
  have fold: "folded stats M (counters (renderHandler z e req M))"
    using assms by (rule renderHandler_engine_outcome(1))
  have failed: "err \<noteq> None \<longrightarrow>
      http_code (renderHandler z e req M) = Some 500
      \<and> body (renderHandler z e req M) = ErrorText ''error fetching the data''"
    using renderHandler_engine_outcome(2) [OF assms, of _ e M] by auto
  have answered: "err = None \<longrightarrow> form req ''format'' = formatTypeProtobuf \<longrightarrow> \<not> e \<longrightarrow>
      http_code (renderHandler z e req M) = Some 200
      \<and> body (renderHandler z e req M) = PBMultiFetch resp"
    using renderHandler_engine_outcome(3) [OF assms, of e M] by blast
  have r: "- (2 ^ 31) \<le> sint (to_int32 x)" "sint (to_int32 x) < 2 ^ 31"
      "(sint (to_int32 x) - sint x) mod 2 ^ 32 = 0" for x
    using to_int32_reduced [of x] by blast+
  show ?thesis
    by (intro conjI calls code fold failed answered r)
qed

lemma sint_examples:
  "sint (4294967297 :: 64 word) = 4294967297" "sint (- 2147483649 :: 64 word) = - 2147483649"
  by simp_all

theorem renderHandler_truncates_to_int32_witness:
  "sint (4294967297 :: 64 word) = 4294967297 \<and> sint (- 2147483649 :: 64 word) = - 2147483649
   \<and> http_code (renderHandler sample_zipper False
        (request_of [(''target'', ''a.b''), (''from'', ''4294967297''), (''until'', ''-2147483649''),
                     (''format'', ''protobuf'')])
        zero_Metrics) = Some 200
   \<and> engine_calls (renderHandler sample_zipper False
        (request_of [(''target'', ''a.b''), (''from'', ''4294967297''), (''until'', ''-2147483649''),
                     (''format'', ''protobuf'')])
        zero_Metrics) = [CallRender ''a.b'' 1 2147483647]
   \<and> body (renderHandler sample_zipper False
        (request_of [(''target'', ''a.b''), (''from'', ''4294967297''), (''until'', ''-2147483649''),
                     (''format'', ''protobuf'')])
        zero_Metrics)
      = PBMultiFetch \<lparr>mfrMetrics = [\<lparr>Name = ''a.b'', StartTime = 1, StopTime = 2147483647,
                            StepTime = 60, Values = [7, 0, 9], IsAbsent = [False, True, False]\<rparr>]\<rparr>"
  using renderHandler_truncates_to_int32 [where z = sample_zipper and e = False and M = zero_Metrics
      and req = "request_of [(''target'', ''a.b''), (''from'', ''4294967297''), (''until'', ''-2147483649''),
                     (''format'', ''protobuf'')]"
      and f = 4294967297 and u = "- 2147483649" and stats = sample_Stats and err = None
      and resp = "\<lparr>mfrMetrics = [\<lparr>Name = ''a.b'', StartTime = 1, StopTime = 2147483647,
                            StepTime = 60, Values = [7, 0, 9], IsAbsent = [False, True, False]\<rparr>]\<rparr>"]
  by (simp add: request_of_def atoi_examples to_int32_examples sample_zipper_def formatTypeProtobuf_def)

subsection \<open>Render responses\<close>

text \<open>
  With flags for every value, the two loops of \<open>createRenderResponse\<close> do not panic
  and build the sequence \<open>spec_values\<close>.
\<close>

lemma pvalues_loop_covered:
  "i + length vs \<le> length isAbsent \<Longrightarrow>
   pvalues_loop isAbsent missing i vs acc = Inr (acc @ spec_values missing (drop i isAbsent) vs)"
proof (induction vs arbitrary: i acc)
  case Nil
  then show ?case by (simp add: spec_values_def)
next
  case (Cons v vs)
  then have i: "i < length isAbsent" by simp
  then have d: "drop i isAbsent = isAbsent ! i # drop (Suc i) isAbsent"
    by (simp add: Cons_nth_drop_Suc)
  from Cons.prems have "Suc i + length vs \<le> length isAbsent" by simp
  from Cons.IH [OF this] i show ?case
    by (simp add: d spec_values_def)
qed

lemma response_loop_covered:
  "\<forall>m \<in> set ms. length (Values m) \<le> length (IsAbsent m) \<Longrightarrow>
   response_loop missing ms acc
     = Inr (acc @ map (\<lambda>m. presponse m (spec_values missing (IsAbsent m) (Values m))) ms)"
proof (induction ms arbitrary: acc)
  case Nil
  then show ?case by simp
next
  case (Cons m ms)
  then have "pvalues_loop (IsAbsent m) missing 0 (Values m) []
      = Inr (spec_values missing (IsAbsent m) (Values m))"
    using pvalues_loop_covered [of 0 "Values m" "IsAbsent m" missing "[]"] by simp
  with Cons show ?case by simp
qed

lemma values_of_presponse: "values_of (presponse m pv) = Some pv"
  by (simp add: values_of_def presponse_def)

lemma spec_values_nth:
  assumes "length vs \<le> length isAbsent" and "i < length vs"
  shows "length (spec_values missing isAbsent vs) = length vs"
    and "spec_values missing isAbsent vs ! i = (if isAbsent ! i then missing else Float64 (vs ! i))"
  using assms by (simp_all add: spec_values_def)

lemma spec_values_length: "length vs \<le> length isAbsent \<Longrightarrow> length (spec_values missing isAbsent vs) = length vs"
  by (simp add: spec_values_def)

lemma createRenderResponse_covered:
  assumes "\<forall>m \<in> set (mfrMetrics resp). length (Values m) \<le> length (IsAbsent m)"
  shows "createRenderResponse resp missing
     = Inr (map (\<lambda>m. presponse m (spec_values missing (IsAbsent m) (Values m))) (mfrMetrics resp))"
  using response_loop_covered [OF assms, of missing "[]"] by (simp add: createRenderResponse_def)

text \<open>
  Claim C3. For a render request answered in JSON or in pickle (the default), with
  flags for every value of every series: the encoded list has one map per series, in
  order, and position \<open>i\<close> of its \<open>values\<close> is the sentinel of the encoding
  (\<open>Nil\<close>, written \<open>null\<close>, for JSON; \<open>pickle.None\<close> for pickle) exactly when
  \<open>IsAbsent[i]\<close> is set, and the value itself otherwise. The sentinel is no number, so
  an absent point is never encoded as one, zero included.
\<close>

theorem render_absent_as_sentinel:
  assumes "\<not> parse_form_fails req" and "form req ''target'' \<noteq> []"
    and "Atoi (form req ''from'') = Some f" and "Atoi (form req ''until'') = Some u"
    and "zRender z (form req ''target'') (to_int32 f) (to_int32 u) = (resp, stats, None)"
    and "form req ''format'' = formatTypeJSON \<and> sentinel = Nil
         \<or> (form req ''format'' = formatTypeEmpty \<or> form req ''format'' = formatTypePickle)
            \<and> sentinel = PickleNone"
    and "\<not> e"
    and "\<forall>m \<in> set (mfrMetrics resp). length (Values m) \<le> length (IsAbsent m)"
  shows "body (renderHandler z e req M)
           = (if sentinel = Nil then JSONMaps (encoded_maps (body (renderHandler z e req M)))
              else Pickled (encoded_maps (body (renderHandler z e req M))))
       \<and> length (encoded_maps (body (renderHandler z e req M))) = length (mfrMetrics resp)
       \<and> (\<forall>k < length (mfrMetrics resp).
            \<exists>pv. values_of (encoded_maps (body (renderHandler z e req M)) ! k) = Some pv
              \<and> length pv = length (Values (mfrMetrics resp ! k))
              \<and> (\<forall>i < length pv.
                    (pv ! i = sentinel) = (IsAbsent (mfrMetrics resp ! k) ! i)
                    \<and> (IsAbsent (mfrMetrics resp ! k) ! i \<longrightarrow> (\<forall>v. pv ! i \<noteq> Float64 v))
                    \<and> (\<not> IsAbsent (mfrMetrics resp ! k) ! i \<longrightarrow>
                         pv ! i = Float64 (Values (mfrMetrics resp ! k) ! i))))"
proof -
  let ?maps = "map (\<lambda>m. presponse m (spec_values sentinel (IsAbsent m) (Values m))) (mfrMetrics resp)"
  have sw: "renderHandler z e req M
      = render_switch (sendStats stats (M\<lparr>Requests := Requests M + 1, RenderRequests := RenderRequests M + 1\<rparr>))
          [CallRender (form req ''target'') (to_int32 f) (to_int32 u)] e (form req ''format'') resp"
    using assms(1-5) by (simp add: renderHandler_def Let_def)
  have sent: "sentinel = Nil \<or> sentinel = PickleNone"
    using assms(6) by blast
  have "body (render_switch M2 cs e (form req ''format'') resp)
      = (if sentinel = Nil then JSONMaps ?maps else Pickled ?maps)" for M2 cs
    using assms(6,7)
    by (auto simp add: render_switch_def served_def createRenderResponse_covered [OF assms(8)]
        formatTypeProtobuf_def formatTypeProtobuf3_def formatTypeJSON_def
        formatTypeEmpty_def formatTypePickle_def)
  then have b: "body (renderHandler z e req M) = (if sentinel = Nil then JSONMaps ?maps else Pickled ?maps)"
    unfolding sw .
  then have em: "encoded_maps (body (renderHandler z e req M)) = ?maps"
    by simp
  have pos: "\<exists>pv. values_of (?maps ! k) = Some pv
              \<and> length pv = length (Values (mfrMetrics resp ! k))
              \<and> (\<forall>i < length pv.
                    (pv ! i = sentinel) = (IsAbsent (mfrMetrics resp ! k) ! i)
                    \<and> (IsAbsent (mfrMetrics resp ! k) ! i \<longrightarrow> (\<forall>v. pv ! i \<noteq> Float64 v))
                    \<and> (\<not> IsAbsent (mfrMetrics resp ! k) ! i \<longrightarrow>
                         pv ! i = Float64 (Values (mfrMetrics resp ! k) ! i)))"
    if k: "k < length (mfrMetrics resp)" for k
  proof -
    let ?m = "mfrMetrics resp ! k"
    have cov: "length (Values ?m) \<le> length (IsAbsent ?m)"
      using assms(8) k by simp
    have v: "values_of (?maps ! k) = Some (spec_values sentinel (IsAbsent ?m) (Values ?m))"
      using k by (simp add: values_of_presponse)
    have l: "length (spec_values sentinel (IsAbsent ?m) (Values ?m)) = length (Values ?m)"
      using cov by (rule spec_values_length)
    have n: "spec_values sentinel (IsAbsent ?m) (Values ?m) ! i
        = (if IsAbsent ?m ! i then sentinel else Float64 (Values ?m ! i))"
      if "i < length (Values ?m)" for i
      using cov that by (rule spec_values_nth(2))
    show ?thesis
      using sent by (auto simp add: v l n)
  qed
  show ?thesis
    unfolding em
  proof (intro conjI allI impI)
    show "body (renderHandler z e req M) = (if sentinel = Nil then JSONMaps ?maps else Pickled ?maps)"
      by (rule b)
    show "length ?maps = length (mfrMetrics resp)"
      by simp
  qed (rule pos)
qed

theorem render_absent_as_sentinel_witness:
  "map values_of (encoded_maps (body (renderHandler sample_zipper False
      (request_of [(''target'', ''a.b''), (''from'', ''0''), (''until'', ''60''), (''format'', ''json'')])
      zero_Metrics))) = [Some [Float64 7, Nil, Float64 9]]
   \<and> map values_of (encoded_maps (body (renderHandler sample_zipper False
      (request_of [(''target'', ''a.b''), (''from'', ''0''), (''until'', ''60'')])
      zero_Metrics))) = [Some [Float64 7, PickleNone, Float64 9]]"
  using
    render_absent_as_sentinel [where z = sample_zipper and e = False and M = zero_Metrics
      and req = "request_of [(''target'', ''a.b''), (''from'', ''0''), (''until'', ''60''), (''format'', ''json'')]"
      and f = 0 and u = 60 and stats = sample_Stats and sentinel = Nil
      and resp = "\<lparr>mfrMetrics = [\<lparr>Name = ''a.b'', StartTime = 0, StopTime = 60, StepTime = 60,
                            Values = [7, 0, 9], IsAbsent = [False, True, False]\<rparr>]\<rparr>"]
    render_absent_as_sentinel [where z = sample_zipper and e = False and M = zero_Metrics
      and req = "request_of [(''target'', ''a.b''), (''from'', ''0''), (''until'', ''60'')]"
      and f = 0 and u = 60 and stats = sample_Stats and sentinel = PickleNone
      and resp = "\<lparr>mfrMetrics = [\<lparr>Name = ''a.b'', StartTime = 0, StopTime = 60, StepTime = 60,
                            Values = [7, 0, 9], IsAbsent = [False, True, False]\<rparr>]\<rparr>"]
  by (simp add: request_of_def atoi_examples to_int32_examples sample_zipper_def renderHandler_def Let_def
      render_switch_def served_def createRenderResponse_def presponse_def values_of_def
      formatTypeProtobuf_def formatTypeProtobuf3_def formatTypeJSON_def
      formatTypeEmpty_def formatTypePickle_def)

subsection \<open>Find responses\<close>

lemma find_pickle_entry_new:
  "dom (find_pickle_entry False now m) = {''is_leaf'', ''path'', ''intervals''}"
  "find_pickle_entry False now m ''path'' = Some (Str (Path m))"
  "find_pickle_entry False now m ''is_leaf'' = Some (Bool (IsLeaf m))"
  "intervals_of (find_pickle_entry False now m) = Some \<lparr>Start = 0, End = now\<rparr>"
  by (auto simp add: find_pickle_entry_def intervals_of_def)

text \<open>
  Claim C2, as stated: in the legacy encoding the interval set of each match runs from 0
  to now. It does not end at now: with the clock at 1000 (seconds since the epoch) the
  interval of a match does not end at 1000.
\<close>

theorem find_intervals_end_counterexample:
  "map intervals_of (encoded_maps (fst (snd
      (encodeFindResponse False 1000 False formatTypePickle ''a.*'' [\<lparr>Path = ''a.b'', IsLeaf = True\<rparr>]
        :: string option \<times> (int, string) body \<times> bool))))
     \<noteq> [Some \<lparr>Start = 0, End = to_int32 1000\<rparr>]"
  by (simp add: encodeFindResponse_def find_pickle_entry_new to_int32_def
      formatTypeProtobuf_def formatTypeProtobuf3_def formatTypeJSON_def
      formatTypeEmpty_def formatTypePickle_def)

text \<open>
  Claim C2, amended. The JSON encoder gets the matches themselves and the protobuf
  encoder a \<open>GlobResponse\<close> of the query and the matches, a match being a path and a
  leaf flag. In the pickle encoding without 0.9 compatibility each match is a map of
  exactly \<open>path\<close>, \<open>is_leaf\<close> and \<open>intervals\<close>, and the interval set is the same
  for all matches: it starts at 0 and ends at \<open>int32(time.Now().Unix() + 60)\<close>, one
  minute after now.
\<close>

theorem encodeFindResponse_bodies:
  "(format = formatTypeJSON \<longrightarrow>
      fst (snd (encodeFindResponse c unix e format query metrics)) = JSONGlobMatches metrics)
   \<and> (format = formatTypeProtobuf \<or> format = formatTypeProtobuf3 \<longrightarrow>
      fst (snd (encodeFindResponse c unix e format query metrics)) = PBGlobResponse query metrics)
   \<and> ((format = formatTypeEmpty \<or> format = formatTypePickle) \<and> c = False \<longrightarrow>
      (\<exists>maps. fst (snd (encodeFindResponse c unix e format query metrics)) = Pickled maps
         \<and> length maps = length metrics
         \<and> (\<forall>k < length metrics.
               dom (maps ! k) = {''is_leaf'', ''path'', ''intervals''}
               \<and> (maps ! k) ''path'' = Some (Str (Path (metrics ! k)))
               \<and> (maps ! k) ''is_leaf'' = Some (Bool (IsLeaf (metrics ! k)))
               \<and> intervals_of (maps ! k) = Some \<lparr>Start = 0, End = to_int32 (unix + 60)\<rparr>)))"
  by (auto simp add: encodeFindResponse_def find_pickle_entry_new
      formatTypeProtobuf_def formatTypeProtobuf3_def formatTypeJSON_def
      formatTypeEmpty_def formatTypePickle_def)

theorem encodeFindResponse_bodies_witness:
  "fst (snd (encodeFindResponse False 1000 False ''json'' ''a.*'' [\<lparr>Path = ''a.b'', IsLeaf = True\<rparr>]
       :: string option \<times> (int, string) body \<times> bool))
     = JSONGlobMatches [\<lparr>Path = ''a.b'', IsLeaf = True\<rparr>]
   \<and> fst (snd (encodeFindResponse False 1000 False ''protobuf'' ''a.*'' [\<lparr>Path = ''a.b'', IsLeaf = True\<rparr>]
       :: string option \<times> (int, string) body \<times> bool))
     = PBGlobResponse ''a.*'' [\<lparr>Path = ''a.b'', IsLeaf = True\<rparr>]
   \<and> map intervals_of (encoded_maps (fst (snd
        (encodeFindResponse False 1000 False ''pickle'' ''a.*'' [\<lparr>Path = ''a.b'', IsLeaf = True\<rparr>]
          :: string option \<times> (int, string) body \<times> bool))))
     = [Some \<lparr>Start = 0, End = 1060\<rparr>]"
proof -
  let ?ms = "[\<lparr>Path = ''a.b'', IsLeaf = True\<rparr>]"
  let ?enc = "\<lambda>format. fst (snd (encodeFindResponse False 1000 False format ''a.*'' ?ms
       :: string option \<times> (int, string) body \<times> bool))"
  have j: "?enc ''json'' = JSONGlobMatches ?ms"
    by (rule encodeFindResponse_bodies [THEN conjunct1, THEN mp]) (simp add: formatTypeJSON_def)
  have p: "?enc ''protobuf'' = PBGlobResponse ''a.*'' ?ms"
    by (rule encodeFindResponse_bodies [THEN conjunct2, THEN conjunct1, THEN mp])
      (simp add: formatTypeProtobuf_def)
  have "\<exists>maps. ?enc ''pickle'' = Pickled maps
         \<and> length maps = length ?ms
         \<and> (\<forall>k < length ?ms.
               dom (maps ! k) = {''is_leaf'', ''path'', ''intervals''}
               \<and> (maps ! k) ''path'' = Some (Str (Path (?ms ! k)))
               \<and> (maps ! k) ''is_leaf'' = Some (Bool (IsLeaf (?ms ! k)))
               \<and> intervals_of (maps ! k) = Some \<lparr>Start = 0, End = to_int32 (1000 + 60)\<rparr>)"
    by (rule encodeFindResponse_bodies [THEN conjunct2, THEN conjunct2, THEN mp])
      (simp add: formatTypePickle_def)
  then obtain maps where m: "?enc ''pickle'' = Pickled maps" "length maps = 1"
      "intervals_of (maps ! 0) = Some \<lparr>Start = 0, End = to_int32 (1000 + 60)\<rparr>"
    by auto
  from m(2) obtain x where "maps = [x]"
    by (cases maps) simp_all
  with m have k: "map intervals_of (encoded_maps (?enc ''pickle'')) = [Some \<lparr>Start = 0, End = 1060\<rparr>]"
    by (simp add: to_int32_def)
  from j p k show ?thesis
    by (simp only: simp_thms)
qed

subsection \<open>Info responses\<close>

text \<open>
  Claim C9. The claim: in protobuf, \<open>Responses\<close> has exactly one entry per backend,
  with that backend's metadata. The code does not: \<open>make\<close> creates one zero entry
  per backend and \<open>append\<close> adds the real ones after them, so one backend gives two
  entries; and every real entry points to the loop variable, so with backends
  \<open>a\<close> and \<open>b\<close> both entries carry the metadata of \<open>b\<close>, the last one visited.
\<close>

theorem info_protobuf_responses:
  "info_protobuf [(''a'', ''A'')] = [([], None), (''a'', Some ''A'')]
   \<and> body (infoHandler sample_zipper False
        (request_of [(''target'', ''a.b''), (''format'', ''protobuf'')]) zero_Metrics)
      = PBZipperInfo [([], None), ([], None), (''a'', Some ''B''), (''b'', Some ''B'')]"
  by (simp add: info_protobuf_def make_responses_def marshal_responses_def loop_var_i_def
      infoHandler_def request_of_def sample_zipper_def served_def Let_def
      formatTypeProtobuf_def formatTypeProtobuf3_def formatTypeJSON_def
      formatTypeEmpty_def)

end
